theory Spec2Isabelle
  imports Complex_Main
begin

section \<open>Numbers, vectors and landmarks\<close>

text \<open>
  JavaScript numbers are IEEE 754 doubles.  The model takes them as real numbers
  (\<^typ>\<open>real\<close>), with sums, differences, products, comparisons and \<^verbatim>\<open>Math.hypot\<close> computed
  exactly; NaN and the infinities have no counterpart.  Halving, the only other division
  in the functions modelled here, is exact on doubles.  The scale ratio, the one quotient
  of two measured values, is rounded to the nearest double as the language prescribes
  (\<open>numberDivide\<close> below).  Timestamps returned by \<^verbatim>\<open>Date.now()\<close> are integers
  (milliseconds).

  A \<^verbatim>\<open>THREE.Vector3\<close> is a triple of numbers; a hand landmark is an object with the
  fields \<^verbatim>\<open>x\<close>, \<^verbatim>\<open>y\<close> and \<^verbatim>\<open>z\<close>.
\<close>

datatype vec3 = Vector3 (vx: real) (vy: real) (vz: real)

datatype landmark = Landmark (lx: real) (ly: real) (lz: real)

text \<open>
  A hand is a JavaScript array of landmarks.  An entry may be \<^verbatim>\<open>null\<close> or
  \<^verbatim>\<open>undefined\<close> (\<^term>\<open>None\<close>), and reading past the end of the array yields
  \<^verbatim>\<open>undefined\<close> as well: \<open>idx xs i\<close> is the expression \<^verbatim>\<open>xs[i]\<close>.
\<close>

type_synonym hand = "landmark option list"

definition idx :: "'a option list \<Rightarrow> nat \<Rightarrow> 'a option" where
  "idx xs i = (if i < length xs then xs ! i else None)"

text \<open>\<^verbatim>\<open>Math.hypot(v1, ..., vn)\<close>: the square root of the sum of the squares.\<close>

definition hypot :: "real list \<Rightarrow> real" where
  "hypot vs = sqrt (sum_list (map (\<lambda>v. v\<^sup>2) vs))"

text \<open>
  The operator \<^verbatim>\<open>/\<close> on numbers: the exact quotient, rounded to the nearest double with
  ties going to the even significand.  Doubles of magnitude at least \<open>2 powr - 1022\<close> have
  53 significant bits, so they are spaced \<open>2 powr (e - 52)\<close> apart between \<open>2 powr e\<close> and
  \<open>2 powr (e + 1)\<close>; below that magnitude the spacing is \<open>2 powr - 1074\<close>.  \<open>ulp x\<close> is the
  spacing at the magnitude of \<open>x\<close>.  A quotient whose rounding would reach \<open>2 ^ 1024\<close> is
  \<^verbatim>\<open>Infinity\<close> in JavaScript; statements about \<open>numberDivide\<close> keep below that bound.
  The divisor is never 0 where the handlers divide.
\<close>

definition roundHalfEven :: "real \<Rightarrow> int" where
  "roundHalfEven m =
     (let f = \<lfloor>m\<rfloor>; r = m - of_int f in
      if r < 1 / 2 then f
      else if 1 / 2 < r then f + 1
      else if even f then f else f + 1)"

definition ulp :: "real \<Rightarrow> real" where
  "ulp x = 2 powr (of_int (max \<lfloor>log 2 \<bar>x\<bar>\<rfloor> (- 1022)) - 52)"

definition roundDouble :: "real \<Rightarrow> real" where
  "roundDouble x = (if x = 0 then 0 else of_int (roundHalfEven (x / ulp x)) * ulp x)"

definition numberDivide :: "real \<Rightarrow> real \<Rightarrow> real" where
  "numberDivide a b = roundDouble (a / b)"




text \<open>\<^verbatim>\<open>THREE.Vector3.distanceTo\<close> and \<^verbatim>\<open>multiplyScalar\<close>, as the library defines them.\<close>

definition distanceTo :: "vec3 \<Rightarrow> vec3 \<Rightarrow> real" where
  "distanceTo a b = sqrt ((vx a - vx b)\<^sup>2 + (vy a - vy b)\<^sup>2 + (vz a - vz b)\<^sup>2)"


definition get3DCoords :: "real \<Rightarrow> real \<Rightarrow> vec3" where
  "get3DCoords normX normY = Vector3 ((normX - 0.5) * 10) ((0.5 - normY) * 10) 0"

definition isPinch :: "hand option \<Rightarrow> bool" where
  "isPinch landmarks =
     (case landmarks of
        None \<Rightarrow> False
      | Some ls \<Rightarrow>
          (case idx ls 4 of
             None \<Rightarrow> False
           | Some a \<Rightarrow>
               (case idx ls 8 of
                  None \<Rightarrow> False
                | Some b \<Rightarrow> hypot [lx a - lx b, ly a - ly b, lz a - lz b] < 0.06)))"

definition areIndexFingersClose :: "hand option \<Rightarrow> hand option \<Rightarrow> bool" where
  "areIndexFingersClose l r =
     (case l of
        None \<Rightarrow> False
      | Some ll \<Rightarrow>
          (case r of
             None \<Rightarrow> False
           | Some rr \<Rightarrow>
               (case idx ll 8 of
                  None \<Rightarrow> False
                | Some a \<Rightarrow>
                    (case idx rr 8 of
                       None \<Rightarrow> False
                     | Some b \<Rightarrow> hypot [lx a - lx b, ly a - ly b] < 0.12))))"

section \<open>Shapes and the application state\<close>

text \<open>
  A shape is a \<^verbatim>\<open>THREE.Group\<close> with a fill mesh and a wireframe mesh.  The model keeps
  what the handlers read and write: its position, its scale vector, the index of the
  geometry chosen at creation, the fill colour and the colour of the wireframe material.
  Shapes are mutable objects that the globals \<^verbatim>\<open>shapes\<close>, \<^verbatim>\<open>currentShape\<close> and
  \<^verbatim>\<open>selectedShape\<close> alias, so they live in an explicit store \<open>heap\<close> from addresses to
  objects; \<open>nextId\<close> is the next unused address.
\<close>

record shape =
  position :: vec3
  scale :: vec3
  geometry :: nat
  color :: nat
  wireframeColor :: nat

text \<open>
  The globals of the script.  \<open>scene\<close> lists the shape groups that are children of the
  THREE scene (lights and the short-lived feedback meshes are left out); \<open>binActive\<close> says
  whether the recycle-bin element carries the CSS class \<^verbatim>\<open>active\<close>; \<open>canvasReady\<close>
  stands for \<^verbatim>\<open>ctx && canvas\<close>.  The element \<^verbatim>\<open>recycleBinElement\<close> itself is
  assigned before the initialisation chain that sets \<open>isApplicationRunning\<close> can start,
  so it is taken to exist.  Status texts and the drawing on the 2D canvas are not modelled.
\<close>

record state =
  shapes :: "nat list"
  heap :: "nat \<Rightarrow> shape"
  nextId :: nat
  scene :: "nat list"
  currentShape :: "nat option"
  isPinching :: bool
  shapeScale :: real
  originalDistance :: "real option"
  selectedShape :: "nat option"
  shapeCreatedThisPinch :: bool
  lastShapeCreationTime :: int
  isApplicationRunning :: bool
  canvasReady :: bool
  colorIndex :: nat
  binActive :: bool

text \<open>
  What a callback reads from its surroundings: the clock, the random number generator,
  the size of the window and the camera (through \<^verbatim>\<open>Vector3.project\<close>, a function of the
  rendering library that maps a world position to normalised device coordinates).
\<close>

record env =
  dateNow :: int
  mathRandom :: real
  innerWidth :: real
  innerHeight :: real
  project :: "vec3 \<Rightarrow> vec3"

text \<open>The result object of the tracker; \<^verbatim>\<open>multiHandLandmarks\<close> may be absent.\<close>

datatype results = Results (multiHandLandmarks: "hand option list option")

definition shapeCreationCooldown :: int where
  "shapeCreationCooldown = 1000"

definition neonColors :: "nat list" where
  "neonColors = [0xFF00FF, 0x00FFFF, 0xFF3300, 0x39FF14, 0xFF0099, 0x00FF00, 0xFF6600, 0xFFFF00]"

text \<open>
  \<^verbatim>\<open>createRandomShape\<close>, with \<^verbatim>\<open>getNextNeonColor\<close> inlined: a fresh group at the given
  position, appended to the scene and to the registry.  The constructors of the rendering
  library are taken to succeed, so the \<^verbatim>\<open>catch\<close> branch that returns \<^verbatim>\<open>null\<close> has no
  counterpart here.
\<close>

definition createRandomShape :: "env \<Rightarrow> vec3 \<Rightarrow> state \<Rightarrow> nat \<times> state" where
  "createRandomShape e pos s =
     (let g = nextId s;
          group = \<lparr>position = pos, scale = Vector3 1 1 1,
                   geometry = nat \<lfloor>mathRandom e * 4\<rfloor>,
                   color = neonColors ! colorIndex s,
                   wireframeColor = 0xffffff\<rparr>
      in (g, s\<lparr>colorIndex := (colorIndex s + 1) mod length neonColors,
                heap := (heap s)(g := group),
                nextId := Suc g,
                scene := scene s @ [g],
                shapes := shapes s @ [g]\<rparr>))"

text \<open>
  \<^verbatim>\<open>findNearestShape\<close>: the \<^verbatim>\<open>forEach\<close> loop over the registry, with the pair
  (\<^verbatim>\<open>minDist\<close>, \<^verbatim>\<open>closest\<close>) as its state; \<^term>\<open>None\<close> stands for \<^verbatim>\<open>Infinity\<close> in the
  first component and for \<^verbatim>\<open>null\<close> in the second.
\<close>

fun nearestLoop ::
  "(nat \<Rightarrow> shape) \<Rightarrow> vec3 \<Rightarrow> nat list \<Rightarrow> real option \<times> nat option \<Rightarrow> real option \<times> nat option"
where
  "nearestLoop h p [] acc = acc"
| "nearestLoop h p (sh # rest) (minDist, closest) =
     (let dist = distanceTo (position (h sh)) p in
      if dist < 1.5 \<and> (case minDist of None \<Rightarrow> True | Some m \<Rightarrow> dist < m)
      then nearestLoop h p rest (Some dist, Some sh)
      else nearestLoop h p rest (minDist, closest))"

definition findNearestShape :: "state \<Rightarrow> vec3 \<Rightarrow> nat option" where
  "findNearestShape s p = snd (nearestLoop (heap s) p (shapes s) (None, None))"

definition isInRecycleBinZone :: "env \<Rightarrow> vec3 \<Rightarrow> bool" where
  "isInRecycleBinZone e pos =
     (let vector = project e pos;
          screenX = ((vx vector + 1) / 2) * innerWidth e;
          screenY = ((- vy vector + 1) / 2) * innerHeight e;
          binWidth = 160;
          binHeight = 160;
          binLeft = innerWidth e - 60 - binWidth;
          binTop = innerHeight e - 60 - binHeight;
          binRight = binLeft + binWidth;
          binBottom = binTop + binHeight;
          adjustedX = innerWidth e - screenX
      in adjustedX \<ge> binLeft \<and> adjustedX \<le> binRight \<and> screenY \<ge> binTop \<and> screenY \<le> binBottom)"

section \<open>The gesture handler of \<^verbatim>\<open>src/main.js\<close>\<close>

text \<open>
  The body of the branch \<^verbatim>\<open>if (leftPinch && rightPinch)\<close> once both index tips are
  known (lines 446 to 464): a shape is created when the pinch starts, and the current
  shape is rescaled while the pinch goes on.  The test \<^verbatim>\<open>currentShape && originalDistance\<close>
  is a truthiness test, so it fails for \<^verbatim>\<open>null\<close> and for the number 0.
\<close>

definition twoHandPinch :: "env \<Rightarrow> landmark \<Rightarrow> landmark \<Rightarrow> bool \<Rightarrow> state \<Rightarrow> state" where
  "twoHandPinch e left right indexesClose s =
     (let centerX = (lx left + lx right) / 2;
          centerY = (ly left + ly right) / 2;
          distance = hypot [lx left - lx right, ly left - ly right];
          s1 =
            (if \<not> isPinching s then
               (let now = dateNow e in
                if \<not> shapeCreatedThisPinch s \<and> indexesClose \<and>
                   now - lastShapeCreationTime s > shapeCreationCooldown
                then
                  (case createRandomShape e (get3DCoords centerX centerY) s of
                     (g, s') \<Rightarrow>
                       s'\<lparr>currentShape := Some g,
                          lastShapeCreationTime := now,
                          shapeCreatedThisPinch := True,
                          originalDistance := Some distance\<rparr>)
                else s)
             else
               (case currentShape s of
                  None \<Rightarrow> s
                | Some c \<Rightarrow>
                    (case originalDistance s of
                       None \<Rightarrow> s
                     | Some od \<Rightarrow>
                         if od = 0 then s
                         else
                           (let sc = numberDivide distance od in
                            s\<lparr>shapeScale := sc,
                              heap := (heap s)(c := (heap s c)\<lparr>scale := Vector3 sc sc sc\<rparr>)\<rparr>))))
      in s1\<lparr>isPinching := True, binActive := False\<rparr>)"

text \<open>
  The block \<^verbatim>\<open>// Handle two-hand gestures\<close> (lines 433 to 467).  The result is
  \<open>Some s'\<close> when the handler returns inside the block, leaving the state \<open>s'\<close>, and
  \<^term>\<open>None\<close> when control falls through to the statements after it.
\<close>

definition handleTwoHands :: "env \<Rightarrow> hand option list option \<Rightarrow> state \<Rightarrow> state option" where
  "handleTwoHands e mhl s =
     (case mhl of
        None \<Rightarrow> None
      | Some hands \<Rightarrow>
          if length hands = 2 then
            (let l = hands ! 0; r = hands ! 1 in
             case l of
               None \<Rightarrow> Some s
             | Some ll \<Rightarrow>
                 (case r of
                    None \<Rightarrow> Some s
                  | Some rr \<Rightarrow>
                      (let leftPinch = isPinch l;
                           rightPinch = isPinch r;
                           indexesClose = areIndexFingersClose l r
                       in if leftPinch \<and> rightPinch then
                            (case idx ll 8 of
                               None \<Rightarrow> Some s
                             | Some left \<Rightarrow>
                                 (case idx rr 8 of
                                    None \<Rightarrow> Some s
                                  | Some right \<Rightarrow>
                                      Some (twoHandPinch e left right indexesClose s)))
                          else None)))
          else None)"

text \<open>The four assignments after the block (lines 469 to 472).\<close>

definition resetPinch :: "state \<Rightarrow> state" where
  "resetPinch s =
     s\<lparr>isPinching := False, shapeCreatedThisPinch := False,
       originalDistance := None, currentShape := None\<rparr>"

text \<open>
  One iteration of the loop \<^verbatim>\<open>for (const landmarks of results.multiHandLandmarks)\<close>
  (lines 477 to 520).
\<close>

definition singleHand :: "env \<Rightarrow> hand option \<Rightarrow> state \<Rightarrow> state" where
  "singleHand e landmarks s =
     (case landmarks of
        None \<Rightarrow> s
      | Some ls \<Rightarrow>
          (case idx ls 8 of
             None \<Rightarrow> s
           | Some indexTip \<Rightarrow>
               (let pos = get3DCoords (lx indexTip) (ly indexTip) in
                if isPinch landmarks then
                  (let s1 = (if selectedShape s = None
                             then s\<lparr>selectedShape := findNearestShape s pos\<rparr> else s)
                   in case selectedShape s1 of
                        None \<Rightarrow> s1
                      | Some sel \<Rightarrow>
                          (let s2 = s1\<lparr>heap := (heap s1)(sel := (heap s1 sel)\<lparr>position := pos\<rparr>)\<rparr>;
                               inBin = isInRecycleBinZone e (position (heap s2 sel));
                               s3 = s2\<lparr>heap := (heap s2)(sel := (heap s2 sel)
                                      \<lparr>wireframeColor := (if inBin then 0xff0000 else 0xffffff)\<rparr>)\<rparr>
                           in s3\<lparr>binActive := inBin\<rparr>))
                else
                  (let s1 =
                     (case selectedShape s of
                        None \<Rightarrow> s
                      | Some sel \<Rightarrow>
                          (let s2 = (if isInRecycleBinZone e (position (heap s sel))
                                     then s\<lparr>scene := remove1 sel (scene s),
                                            shapes := filter (\<lambda>x. x \<noteq> sel) (shapes s)\<rparr>
                                     else s)
                           in s2\<lparr>selectedShape := None\<rparr>))
                   in s1\<lparr>binActive := False\<rparr>))))"

text \<open>The branch taken when no hand is present (lines 523 to 529).\<close>

definition noHands :: "env \<Rightarrow> state \<Rightarrow> state" where
  "noHands e s =
     (let s1 =
        (case selectedShape s of
           None \<Rightarrow> s
         | Some sel \<Rightarrow>
             if isInRecycleBinZone e (position (heap s sel))
             then s\<lparr>scene := remove1 sel (scene s),
                    shapes := filter (\<lambda>x. x \<noteq> sel) (shapes s)\<rparr>
             else s)
      in s1\<lparr>selectedShape := None, binActive := False\<rparr>)"

text \<open>The block \<^verbatim>\<open>// Handle single-hand gestures\<close> (lines 475 to 530).\<close>

definition handleSingleHands :: "env \<Rightarrow> hand option list option \<Rightarrow> state \<Rightarrow> state" where
  "handleSingleHands e mhl s =
     (case mhl of
        None \<Rightarrow> noHands e s
      | Some hands \<Rightarrow>
          if length hands > 0 then fold (singleHand e) hands s else noHands e s)"

text \<open>
  \<^verbatim>\<open>handleHandResults\<close> of \<^verbatim>\<open>src/main.js\<close>.  A \<^verbatim>\<open>null\<close> result object makes the first
  read of \<^verbatim>\<open>results.multiHandLandmarks\<close> throw; the surrounding \<^verbatim>\<open>try\<close> catches the
  error before any global has been written.
\<close>

definition handleHandResults :: "env \<Rightarrow> results option \<Rightarrow> state \<Rightarrow> state" where
  "handleHandResults e results s =
     (if \<not> isApplicationRunning s \<or> \<not> canvasReady s then s
      else
        (case results of
           None \<Rightarrow> s
         | Some res \<Rightarrow>
             (case handleTwoHands e (multiHandLandmarks res) s of
                Some s' \<Rightarrow> s'
              | None \<Rightarrow> handleSingleHands e (multiHandLandmarks res) (resetPinch s))))"

section \<open>The gesture handler of \<^verbatim>\<open>src/unnamed/part_000\<close>\<close>

text \<open>
  The second copy of the script has its own \<^verbatim>\<open>handleHandResults\<close> (lines 795 to 1039).
  It is translated block by block like the first one; the helper functions
  \<^verbatim>\<open>isPinch\<close>, \<^verbatim>\<open>areIndexFingersClose\<close>, \<^verbatim>\<open>get3DCoords\<close>, \<^verbatim>\<open>findNearestShape\<close>,
  \<^verbatim>\<open>isInRecycleBinZone\<close> and \<^verbatim>\<open>createRandomShape\<close> have the same text in both files.
  Logging and drawing are left out, and \<^verbatim>\<open>if (recycleBinElement)\<close> succeeds.
\<close>

definition twoHandPinch_part000 ::
  "env \<Rightarrow> landmark \<Rightarrow> landmark \<Rightarrow> bool \<Rightarrow> state \<Rightarrow> state"
where
  "twoHandPinch_part000 e left right indexesClose s =
     (let centerX = (lx left + lx right) / 2;
          centerY = (ly left + ly right) / 2;
          distance = hypot [lx left - lx right, ly left - ly right];
          s1 =
            (if \<not> isPinching s then
               (let now = dateNow e in
                if \<not> shapeCreatedThisPinch s \<and> indexesClose \<and>
                   now - lastShapeCreationTime s > shapeCreationCooldown
                then
                  (let pos = get3DCoords centerX centerY in
                   case createRandomShape e pos s of
                     (g, s') \<Rightarrow>
                       s'\<lparr>currentShape := Some g,
                          lastShapeCreationTime := now,
                          shapeCreatedThisPinch := True,
                          originalDistance := Some distance\<rparr>)
                else s)
             else
               (case currentShape s of
                  None \<Rightarrow> s
                | Some c \<Rightarrow>
                    (case originalDistance s of
                       None \<Rightarrow> s
                     | Some od \<Rightarrow>
                         if od = 0 then s
                         else
                           (let sc = numberDivide distance od in
                            s\<lparr>shapeScale := sc,
                              heap := (heap s)(c := (heap s c)\<lparr>scale := Vector3 sc sc sc\<rparr>)\<rparr>))));
          s2 = s1\<lparr>isPinching := True\<rparr>
      in s2\<lparr>binActive := False\<rparr>)"

definition handleTwoHands_part000 ::
  "env \<Rightarrow> hand option list option \<Rightarrow> state \<Rightarrow> state option"
where
  "handleTwoHands_part000 e mhl s =
     (case mhl of
        None \<Rightarrow> None
      | Some hands \<Rightarrow>
          if length hands = 2 then
            (let l = hands ! 0; r = hands ! 1 in
             case l of
               None \<Rightarrow> Some s
             | Some ll \<Rightarrow>
                 (case r of
                    None \<Rightarrow> Some s
                  | Some rr \<Rightarrow>
                      if length ll < 21 \<or> length rr < 21 then Some s
                      else
                        (let leftPinch = isPinch l;
                             rightPinch = isPinch r;
                             indexesClose = areIndexFingersClose l r
                         in if leftPinch \<and> rightPinch then
                              (case idx ll 8 of
                                 None \<Rightarrow> Some s
                               | Some left \<Rightarrow>
                                   (case idx rr 8 of
                                      None \<Rightarrow> Some s
                                    | Some right \<Rightarrow>
                                        Some (twoHandPinch_part000 e left right indexesClose s)))
                            else None)))
          else None)"

definition singleHand_part000 :: "env \<Rightarrow> hand option \<Rightarrow> state \<Rightarrow> state" where
  "singleHand_part000 e landmarks s =
     (case landmarks of
        None \<Rightarrow> s
      | Some ls \<Rightarrow>
          if length ls < 21 then s
          else
            (case idx ls 8 of
               None \<Rightarrow> s
             | Some indexTip \<Rightarrow>
                 (let pos = get3DCoords (lx indexTip) (ly indexTip) in
                  if isPinch landmarks then
                    (let s1 = (if selectedShape s = None
                               then s\<lparr>selectedShape := findNearestShape s pos\<rparr> else s)
                     in case selectedShape s1 of
                          None \<Rightarrow> s1
                        | Some sel \<Rightarrow>
                            (let s2 = s1\<lparr>heap := (heap s1)(sel := (heap s1 sel)\<lparr>position := pos\<rparr>)\<rparr>;
                                 inBin = isInRecycleBinZone e (position (heap s2 sel));
                                 s3 = s2\<lparr>heap := (heap s2)(sel := (heap s2 sel)
                                        \<lparr>wireframeColor := (if inBin then 0xff0000 else 0xffffff)\<rparr>)\<rparr>
                             in if inBin then s3\<lparr>binActive := True\<rparr>
                                else s3\<lparr>binActive := False\<rparr>))
                  else
                    (let s1 =
                       (case selectedShape s of
                          None \<Rightarrow> s
                        | Some sel \<Rightarrow>
                            (let s2 = (if isInRecycleBinZone e (position (heap s sel))
                                       then s\<lparr>scene := remove1 sel (scene s),
                                              shapes := filter (\<lambda>x. x \<noteq> sel) (shapes s)\<rparr>
                                       else s)
                             in s2\<lparr>selectedShape := None\<rparr>))
                     in s1\<lparr>binActive := False\<rparr>))))"

definition noHands_part000 :: "env \<Rightarrow> state \<Rightarrow> state" where
  "noHands_part000 e s =
     (let s1 =
        (case selectedShape s of
           None \<Rightarrow> s
         | Some sel \<Rightarrow>
             if isInRecycleBinZone e (position (heap s sel))
             then s\<lparr>scene := remove1 sel (scene s),
                    shapes := filter (\<lambda>x. x \<noteq> sel) (shapes s)\<rparr>
             else s);
          s2 = s1\<lparr>selectedShape := None\<rparr>
      in s2\<lparr>binActive := False\<rparr>)"

definition handleSingleHands_part000 ::
  "env \<Rightarrow> hand option list option \<Rightarrow> state \<Rightarrow> state"
where
  "handleSingleHands_part000 e mhl s =
     (case mhl of
        None \<Rightarrow> noHands_part000 e s
      | Some hands \<Rightarrow>
          if length hands > 0 then fold (singleHand_part000 e) hands s
          else noHands_part000 e s)"

text \<open>
  The handler returns at once, before any global is written, when the result object or
  its \<^verbatim>\<open>multiHandLandmarks\<close> is missing (lines 806 to 808).
\<close>

definition handleHandResults_part000 :: "env \<Rightarrow> results option \<Rightarrow> state \<Rightarrow> state" where
  "handleHandResults_part000 e results s =
     (if \<not> isApplicationRunning s \<or> \<not> canvasReady s then s
      else
        (case results of
           None \<Rightarrow> s
         | Some res \<Rightarrow>
             (case multiHandLandmarks res of
                None \<Rightarrow> s
              | Some hands \<Rightarrow>
                  (case handleTwoHands_part000 e (multiHandLandmarks res) s of
                     Some s' \<Rightarrow> s'
                   | None \<Rightarrow>
                       handleSingleHands_part000 e (multiHandLandmarks res) (resetPinch s)))))"

section \<open>The mouse wheel of \<^verbatim>\<open>setupMouseControls\<close>\<close>





section \<open>Concrete states and frames\<close>

text \<open>
  The globals as the script initialises them (lines 14 to 24 and 201 of \<^verbatim>\<open>src/main.js\<close>),
  and the state reached once \<^verbatim>\<open>initApp\<close> has completed.  No shape exists yet, so every
  address of the store holds a placeholder.
\<close>

definition initialState :: state where
  "initialState =
     \<lparr>shapes = [],
      heap = (\<lambda>_. \<lparr>position = Vector3 0 0 0, scale = Vector3 1 1 1, geometry = 0,
                     color = 0, wireframeColor = 0xffffff\<rparr>),
      nextId = 0, scene = [], currentShape = None, isPinching = False, shapeScale = 1,
      originalDistance = None, selectedShape = None, shapeCreatedThisPinch = False,
      lastShapeCreationTime = 0, isApplicationRunning = False, canvasReady = False,
      colorIndex = 0, binActive = False\<rparr>"

definition runningState :: state where
  "runningState = initialState\<lparr>isApplicationRunning := True, canvasReady := True\<rparr>"

text \<open>
  A hand of 21 landmarks that all sit at one point of the image, so that thumb tip and
  index tip touch; the same hand with the thumb tip moved away in depth; and a hand
  truncated after landmark 8.
\<close>

definition pinchedHand :: "real \<Rightarrow> real \<Rightarrow> hand" where
  "pinchedHand x y = replicate 21 (Some (Landmark x y 0))"


definition shortHand :: "real \<Rightarrow> real \<Rightarrow> hand" where
  "shortHand x y = replicate 9 (Some (Landmark x y 0))"

text \<open>
  A window of 1000 by 800 pixels at clock time \<open>t\<close>, with a camera that divides the
  world coordinates by 5.
\<close>

definition exampleEnv :: "int \<Rightarrow> env" where
  "exampleEnv t =
     \<lparr>dateNow = t, mathRandom = 0, innerWidth = 1000, innerHeight = 800,
      project = (\<lambda>v. Vector3 (vx v / 5) (vy v / 5) 0)\<rparr>"

definition twoHandFrame :: "hand \<Rightarrow> hand \<Rightarrow> results option" where
  "twoHandFrame l r = Some (Results (Some [Some l, Some r]))"

section \<open>Sequences of frames\<close>

text \<open>
  The condition under which the handler enters the branch for a two-hand pinch (lines 433
  and 441): the result carries exactly two hands and \<^verbatim>\<open>isPinch\<close> holds for both.
\<close>

definition bothPinching :: "results option \<Rightarrow> bool" where
  "bothPinching results =
     (case results of
        None \<Rightarrow> False
      | Some res \<Rightarrow>
          (case multiHandLandmarks res of
             None \<Rightarrow> False
           | Some hands \<Rightarrow> length hands = 2 \<and> isPinch (hands ! 0) \<and> isPinch (hands ! 1)))"

text \<open>
  The tracker calls the handler once per frame; each call finds its own clock value and
  window.  Handlers run to completion, one after the other.
\<close>

definition handleFrames :: "(env \<times> results option) list \<Rightarrow> state \<Rightarrow> state" where
  "handleFrames frames s = fold (\<lambda>(e, results). handleHandResults e results) frames s"

text \<open>Three frames of one two-hand pinch, the hands moving apart.\<close>

definition exampleSession :: "(env \<times> results option) list" where
  "exampleSession =
     [(exampleEnv 2000, twoHandFrame (pinchedHand 0.45 0.5) (pinchedHand 0.55 0.5)),
      (exampleEnv 3500, twoHandFrame (pinchedHand 0.4 0.5) (pinchedHand 0.6 0.5)),
      (exampleEnv 5000, twoHandFrame (pinchedHand 0.35 0.5) (pinchedHand 0.65 0.5))]"




definition zeroBaselineState :: state where
  "zeroBaselineState =
     handleHandResults (exampleEnv 2000)
       (twoHandFrame (pinchedHand 0.5 0.5) (pinchedHand 0.5 0.5)) runningState"

text \<open>
  A registry of three shapes seen from the origin: shape 0 at distance exactly 1.5,
  shapes 1 and 2 both at distance 1.
\<close>

definition tieState :: state where
  "tieState =
     runningState\<lparr>shapes := [0, 1, 2], nextId := 3, scene := [0, 1, 2],
       heap := (\<lambda>a. (heap runningState a)
                  \<lparr>position := (if a = 0 then Vector3 1.5 0 0
                                else if a = 1 then Vector3 1 0 0
                                else Vector3 0 1 0)\<rparr>)\<rparr>"

text \<open>
  A state in which shape 0, the only one, is selected by a single-hand pinch and sits at
  the given position, with the recycle indicator lit.
\<close>

definition draggingState :: "vec3 \<Rightarrow> state" where
  "draggingState pos =
     runningState\<lparr>shapes := [0], nextId := 1, scene := [0], selectedShape := Some 0,
       heap := (\<lambda>a. (heap runningState a)\<lparr>position := pos\<rparr>), binActive := True\<rparr>"


text \<open>
  Frames on which the two handlers are compared: the result object, when there is one,
  carries \<^verbatim>\<open>multiHandLandmarks\<close>, and every hand in it that is not \<^verbatim>\<open>null\<close> has all 21
  entries.
\<close>

definition completeHand :: "hand option \<Rightarrow> bool" where
  "completeHand h = (case h of None \<Rightarrow> True | Some ls \<Rightarrow> 21 \<le> length ls)"

definition completeFrame :: "results option \<Rightarrow> bool" where
  "completeFrame results =
     (case results of
        None \<Rightarrow> True
      | Some res \<Rightarrow>
          (case multiHandLandmarks res of
             None \<Rightarrow> False
           | Some hands \<Rightarrow> list_all completeHand hands))"

section \<open>Facts about rounding\<close>













section \<open>Facts about the geometry\<close>

lemma hypot2: "hypot [a, b] = sqrt (a\<^sup>2 + b\<^sup>2)"
  by (simp add: hypot_def)

lemma hypot_axis: "hypot [a, 0] = \<bar>a\<bar>"
  by (simp add: hypot_def)

lemma idx_pinchedHand: "i < 21 \<Longrightarrow> idx (pinchedHand x y) i = Some (Landmark x y 0)"
  by (simp add: idx_def pinchedHand_def)

lemma idx_shortHand: "i < 9 \<Longrightarrow> idx (shortHand x y) i = Some (Landmark x y 0)"
  by (simp add: idx_def shortHand_def)

lemma isPinch_pinchedHand: "isPinch (Some (pinchedHand x y))"
  by (simp add: isPinch_def idx_pinchedHand hypot_def)

lemma isPinch_shortHand: "isPinch (Some (shortHand x y))"
  by (simp add: isPinch_def idx_shortHand hypot_def)



lemma close_pinchedHand:
  "areIndexFingersClose (Some (pinchedHand x y)) (Some (pinchedHand x' y)) \<longleftrightarrow> \<bar>x - x'\<bar> < 0.12"
  by (simp add: areIndexFingersClose_def idx_pinchedHand hypot_axis)


text \<open>
  The thresholds at concrete hands: a thumb tip exactly 0.06 away from the index tip is no
  pinch, one at 0.0599 is; a hand cut off before landmark 8 and a missing hand are no
  pinch.  Index tips exactly 0.12 apart are not close, at 0.1199 they are.
\<close>

lemma hypot_axis3: "hypot [a, 0, 0] = \<bar>a\<bar>"
  by (simp add: hypot_def)

lemma isPinch_boundary:
  "\<not> isPinch (Some ((pinchedHand 0 0)[4 := Some (Landmark 0.06 0 0)]))"
  "isPinch (Some ((pinchedHand 0 0)[4 := Some (Landmark 0.0599 0 0)]))"
  "\<not> isPinch (Some (take 8 (pinchedHand 0 0)))"
  "\<not> isPinch None"
  by (simp_all add: isPinch_def idx_def pinchedHand_def hypot_axis3)

lemma areIndexFingersClose_boundary:
  "\<not> areIndexFingersClose (Some (pinchedHand 0.5 0.5)) (Some (pinchedHand 0.62 0.5))"
  "areIndexFingersClose (Some (pinchedHand 0.5 0.5)) (Some (pinchedHand 0.6199 0.5))"
  by (simp_all add: close_pinchedHand)

section \<open>The start of a two-hand pinch\<close>

lemma handleHandResults_pinch:
  assumes "isApplicationRunning s" "canvasReady s"
    and "isPinch (Some l)" "isPinch (Some r)"
    and "idx l 8 = Some left" "idx r 8 = Some right"
  shows "handleHandResults e (twoHandFrame l r) s =
         twoHandPinch e left right (areIndexFingersClose (Some l) (Some r)) s"
  using assms by (simp add: handleHandResults_def handleTwoHands_def twoHandFrame_def)

lemma twoHandPinch_create:
  fixes left right e s
  defines "s' \<equiv> twoHandPinch e left right True s"
  assumes "\<not> isPinching s" "\<not> shapeCreatedThisPinch s"
    and "dateNow e - lastShapeCreationTime s > 1000"
  shows "shapes s' = shapes s @ [nextId s]"
    and "position (heap s' (nextId s)) =
           Vector3 (((lx left + lx right) / 2 - 0.5) * 10) ((0.5 - (ly left + ly right) / 2) * 10) 0"
    and "lastShapeCreationTime s' = dateNow e"
    and "shapeCreatedThisPinch s'"
    and "originalDistance s' = Some (sqrt ((lx left - lx right)\<^sup>2 + (ly left - ly right)\<^sup>2))"
    and "currentShape s' = Some (nextId s)"
    and "isPinching s'"
  using assms
  by (simp_all add: twoHandPinch_def createRandomShape_def shapeCreationCooldown_def
      get3DCoords_def hypot2 Let_def)

lemma twoHandPinch_no_create:
  assumes "\<not> isPinching s"
    and "shapeCreatedThisPinch s \<or> \<not> close \<or> dateNow e - lastShapeCreationTime s \<le> 1000"
  shows "twoHandPinch e left right close s = s\<lparr>isPinching := True, binActive := False\<rparr>"
  using assms
  by (auto simp add: twoHandPinch_def shapeCreationCooldown_def Let_def)

text \<open>
  Claim C1, amended at the boundary of the cooldown.  Take a frame with two hands that both
  pinch, handled while the application runs and \<open>isPinching\<close> is false.  If the two index
  tips are close, no shape has been created in this pinch session and strictly more than
  1000 ms have passed since the last creation, then the registry grows by exactly one new
  shape, placed at the midpoint of the two index tips mapped to world coordinates; the
  creation time is recorded, \<open>shapeCreatedThisPinch\<close> is set, \<open>originalDistance\<close> is the
  planar distance between the index tips and \<open>currentShape\<close> is the new shape.  If 1000 ms
  or fewer have passed, no shape is created: registry, scene and store are unchanged.
\<close>

theorem two_hand_pinch_start:
  assumes run: "isApplicationRunning s" "canvasReady s"
    and start: "\<not> isPinching s"
    and pinch: "isPinch (Some l)" "isPinch (Some r)"
    and tips: "idx l 8 = Some left" "idx r 8 = Some right"
    and s': "s' = handleHandResults e (twoHandFrame l r) s"
  shows "(areIndexFingersClose (Some l) (Some r) \<and> \<not> shapeCreatedThisPinch s \<and>
          dateNow e - lastShapeCreationTime s > 1000 \<longrightarrow>
            shapes s' = shapes s @ [nextId s] \<and>
            position (heap s' (nextId s)) =
              Vector3 (((lx left + lx right) / 2 - 0.5) * 10)
                      ((0.5 - (ly left + ly right) / 2) * 10) 0 \<and>
            lastShapeCreationTime s' = dateNow e \<and>
            shapeCreatedThisPinch s' \<and>
            originalDistance s' =
              Some (sqrt ((lx left - lx right)\<^sup>2 + (ly left - ly right)\<^sup>2)) \<and>
            currentShape s' = Some (nextId s)) \<and>
         (dateNow e - lastShapeCreationTime s \<le> 1000 \<longrightarrow>
            shapes s' = shapes s \<and> scene s' = scene s \<and> heap s' = heap s \<and>
            nextId s' = nextId s \<and> currentShape s' = currentShape s \<and>
            lastShapeCreationTime s' = lastShapeCreationTime s)"
proof -
  have eq: "s' = twoHandPinch e left right (areIndexFingersClose (Some l) (Some r)) s"
    unfolding s' using run pinch tips by (rule handleHandResults_pinch)
  show ?thesis
  proof (intro conjI impI)
    assume c: "areIndexFingersClose (Some l) (Some r) \<and> \<not> shapeCreatedThisPinch s \<and>
          dateNow e - lastShapeCreationTime s > 1000"
    then have eq: "s' = twoHandPinch e left right True s"
      using eq by simp
    note cr = twoHandPinch_create[OF start, where e = e and left = left and right = right]
    from c show "shapes s' = shapes s @ [nextId s]" unfolding eq by (simp add: cr)
    from c show "position (heap s' (nextId s)) =
              Vector3 (((lx left + lx right) / 2 - 0.5) * 10)
                      ((0.5 - (ly left + ly right) / 2) * 10) 0" unfolding eq by (simp add: cr)
    from c show "lastShapeCreationTime s' = dateNow e" unfolding eq by (simp add: cr)
    from c show "shapeCreatedThisPinch s'" unfolding eq by (simp add: cr)
    from c show "originalDistance s' =
              Some (sqrt ((lx left - lx right)\<^sup>2 + (ly left - ly right)\<^sup>2))" unfolding eq by (simp add: cr)
    from c show "currentShape s' = Some (nextId s)" unfolding eq by (simp add: cr)
  next
    assume c: "dateNow e - lastShapeCreationTime s \<le> 1000"
    have n: "s' = s\<lparr>isPinching := True, binActive := False\<rparr>"
      unfolding eq using start c by (simp add: twoHandPinch_no_create)
    show "shapes s' = shapes s" "scene s' = scene s" "heap s' = heap s"
      "nextId s' = nextId s" "currentShape s' = currentShape s"
      "lastShapeCreationTime s' = lastShapeCreationTime s"
      by (simp_all add: n)
  qed
qed

lemma running_runningState: "isApplicationRunning runningState" "canvasReady runningState"
  "\<not> isPinching runningState" "\<not> shapeCreatedThisPinch runningState"
  "lastShapeCreationTime runningState = 0" "shapes runningState = []" "nextId runningState = 0"
  by (simp_all add: runningState_def initialState_def)

text \<open>
  From the state after initialisation (last creation at time 0), two pinching hands whose
  index tips are 0.1 apart create shape 0 at world position (0.5, 0, 0) when the clock
  shows 1001, and nothing when it shows 999.
\<close>

theorem two_hand_pinch_start_witness:
  "shapes (handleHandResults (exampleEnv 1001) (twoHandFrame (pinchedHand 0.5 0.5) (pinchedHand 0.6 0.5)) runningState) = [0]
   \<and> position (heap (handleHandResults (exampleEnv 1001) (twoHandFrame (pinchedHand 0.5 0.5) (pinchedHand 0.6 0.5)) runningState) 0) = Vector3 0.5 0 0
   \<and> currentShape (handleHandResults (exampleEnv 1001) (twoHandFrame (pinchedHand 0.5 0.5) (pinchedHand 0.6 0.5)) runningState) = Some 0
   \<and> originalDistance (handleHandResults (exampleEnv 1001) (twoHandFrame (pinchedHand 0.5 0.5) (pinchedHand 0.6 0.5)) runningState) = Some 0.1
   \<and> shapes (handleHandResults (exampleEnv 999) (twoHandFrame (pinchedHand 0.5 0.5) (pinchedHand 0.6 0.5)) runningState) = []"
proof -
  have cl: "areIndexFingersClose (Some (pinchedHand 0.5 0.5)) (Some (pinchedHand 0.6 0.5))"
    by (simp add: close_pinchedHand)
  have t1: "dateNow (exampleEnv 1001) - lastShapeCreationTime runningState > 1000"
    by (simp add: exampleEnv_def running_runningState)
  have t2: "dateNow (exampleEnv 999) - lastShapeCreationTime runningState \<le> 1000"
    by (simp add: exampleEnv_def running_runningState)
  note a = two_hand_pinch_start[OF running_runningState(1,2,3) isPinch_pinchedHand isPinch_pinchedHand
      idx_pinchedHand[of 8 "0.5" "0.5"] idx_pinchedHand[of 8 "0.6" "0.5"] refl, where e = "exampleEnv 1001"]
  note b = two_hand_pinch_start[OF running_runningState(1,2,3) isPinch_pinchedHand isPinch_pinchedHand
      idx_pinchedHand[of 8 "0.5" "0.5"] idx_pinchedHand[of 8 "0.6" "0.5"] refl, where e = "exampleEnv 999"]
  have sq: "sqrt ((0.5 - 0.6)\<^sup>2 + (0.5 - 0.5)\<^sup>2) = (0.1::real)"
    by simp
  show ?thesis
    using a b cl t1 t2 running_runningState(4,6,7) sq by simp
qed

text \<open>
  Claim C1 as the specification words it promises a shape once at least 1000 ms have
  passed.  When exactly 1000 ms have passed, all other conditions being met, the handler
  creates nothing: the comparison with the cooldown is strict.
\<close>

theorem cooldown_boundary_counterexample:
  "isApplicationRunning runningState \<and> canvasReady runningState \<and> \<not> isPinching runningState \<and>
   isPinch (Some (pinchedHand 0.5 0.5)) \<and> isPinch (Some (pinchedHand 0.6 0.5)) \<and>
   areIndexFingersClose (Some (pinchedHand 0.5 0.5)) (Some (pinchedHand 0.6 0.5)) \<and>
   \<not> shapeCreatedThisPinch runningState \<and>
   dateNow (exampleEnv 1000) - lastShapeCreationTime runningState \<ge> 1000 \<and>
   shapes (handleHandResults (exampleEnv 1000)
             (twoHandFrame (pinchedHand 0.5 0.5) (pinchedHand 0.6 0.5)) runningState)
     = shapes runningState"
proof -
  have "handleHandResults (exampleEnv 1000)
             (twoHandFrame (pinchedHand 0.5 0.5) (pinchedHand 0.6 0.5)) runningState
        = twoHandPinch (exampleEnv 1000) (Landmark 0.5 0.5 0) (Landmark 0.6 0.5 0)
            (areIndexFingersClose (Some (pinchedHand 0.5 0.5)) (Some (pinchedHand 0.6 0.5))) runningState"
    by (rule handleHandResults_pinch) (simp_all add: running_runningState isPinch_pinchedHand idx_pinchedHand)
  also have "\<dots> = runningState\<lparr>isPinching := True, binActive := False\<rparr>"
    by (rule twoHandPinch_no_create) (simp_all add: running_runningState exampleEnv_def)
  finally show ?thesis
    by (simp add: running_runningState isPinch_pinchedHand close_pinchedHand exampleEnv_def)
qed

section \<open>One shape per two-hand pinch\<close>

lemma handleHandResults_not_running:
  "\<not> isApplicationRunning s \<or> \<not> canvasReady s \<Longrightarrow> handleHandResults e results s = s"
  by (auto simp add: handleHandResults_def)

lemma bothPinching_step:
  assumes "bothPinching results" "isApplicationRunning s" "canvasReady s"
  shows "\<exists>left right close. handleHandResults e results s = twoHandPinch e left right close s"
proof -
  from assms(1) obtain res hands where r: "results = Some res"
    and m: "multiHandLandmarks res = Some hands"
    and len: "length hands = 2" and p0: "isPinch (hands ! 0)" and p1: "isPinch (hands ! 1)"
    by (auto simp add: bothPinching_def split: option.splits)
  from p0 obtain l left where l: "hands ! 0 = Some l" "idx l 8 = Some left"
    by (auto simp add: isPinch_def split: option.splits)
  from p1 obtain r right where rr: "hands ! 1 = Some r" "idx r 8 = Some right"
    by (auto simp add: isPinch_def split: option.splits)
  have "handleHandResults e results s =
        twoHandPinch e left right (areIndexFingersClose (hands ! 0) (hands ! 1)) s"
    using assms(2,3) r m len p0 p1 l rr
    by (simp add: handleHandResults_def handleTwoHands_def)
  then show ?thesis by blast
qed

lemma twoHandPinch_flags:
  "isPinching (twoHandPinch e left right close s)"
  "isApplicationRunning (twoHandPinch e left right close s) = isApplicationRunning s"
  "canvasReady (twoHandPinch e left right close s) = canvasReady s"
  by (simp_all add: twoHandPinch_def createRandomShape_def Let_def split: option.splits prod.splits)

lemma twoHandPinch_shapes:
  "shapes (twoHandPinch e left right close s) = shapes s \<or>
   shapes (twoHandPinch e left right close s) = shapes s @ [nextId s]"
  by (simp add: twoHandPinch_def createRandomShape_def Let_def split: option.splits)

lemma twoHandPinch_continue_shapes:
  "isPinching s \<Longrightarrow> shapes (twoHandPinch e left right close s) = shapes s"
  by (simp add: twoHandPinch_def Let_def split: option.splits)

lemma handleFrames_Cons:
  "handleFrames ((e, results) # frames) s = handleFrames frames (handleHandResults e results s)"
  by (simp add: handleFrames_def)

lemma handleFrames_Nil: "handleFrames [] s = s"
  by (simp add: handleFrames_def)

lemma handleFrames_not_running:
  "\<not> isApplicationRunning s \<or> \<not> canvasReady s \<Longrightarrow> handleFrames frames s = s"
proof (induction frames)
  case Nil
  show ?case by (simp add: handleFrames_Nil)
next
  case (Cons f frames)
  obtain e results where f: "f = (e, results)" by (cases f)
  show ?case using Cons by (simp add: f handleFrames_Cons handleHandResults_not_running)
qed

lemma pinch_continues:
  assumes "\<forall>f\<in>set frames. bothPinching (snd f)"
    and "isPinching s" "isApplicationRunning s" "canvasReady s"
  shows "shapes (handleFrames frames s) = shapes s"
  using assms
proof (induction frames arbitrary: s)
  case Nil
  show ?case by (simp add: handleFrames_Nil)
next
  case (Cons f frames)
  obtain e results where f: "f = (e, results)" by (cases f)
  from Cons.prems(1) have bp: "bothPinching results" by (simp add: f)
  from bothPinching_step[OF bp Cons.prems(3,4)] obtain left right close
    where st: "handleHandResults e results s = twoHandPinch e left right close s" by blast
  have "shapes (handleFrames frames (handleHandResults e results s))
        = shapes (handleHandResults e results s)"
    using Cons.prems by (intro Cons.IH) (simp_all add: st twoHandPinch_flags)
  also have "\<dots> = shapes s"
    by (simp add: st twoHandPinch_continue_shapes Cons.prems(2))
  finally show ?case by (simp add: f handleFrames_Cons)
qed

text \<open>
  Claim C2.  Over any run of consecutive frames in which both hands pinch, however long
  and from whatever state it starts, the shape registry keeps its entries and gains at
  most one new entry at its end.
\<close>

theorem one_shape_per_pinch_session:
  assumes "\<forall>f\<in>set frames. bothPinching (snd f)"
  shows "\<exists>new. shapes (handleFrames frames s) = shapes s @ new \<and> length new \<le> 1"
proof (cases "isApplicationRunning s \<and> canvasReady s")
  case False
  then have "handleFrames frames s = s" by (simp add: handleFrames_not_running)
  then show ?thesis by simp
next
  case True
  show ?thesis
  proof (cases frames)
    case Nil
    then show ?thesis by (simp add: handleFrames_Nil)
  next
    case (Cons f rest)
    obtain e results where f: "f = (e, results)" by (cases f)
    from assms have bp: "bothPinching results" and rest: "\<forall>f\<in>set rest. bothPinching (snd f)"
      by (simp_all add: Cons f)
    from bothPinching_step[OF bp] True obtain left right close
      where st: "handleHandResults e results s = twoHandPinch e left right close s" by blast
    let ?s1 = "twoHandPinch e left right close s"
    have "shapes (handleFrames rest ?s1) = shapes ?s1"
      using rest True by (intro pinch_continues) (simp_all add: twoHandPinch_flags)
    then have "shapes (handleFrames frames s) = shapes ?s1"
      by (simp add: Cons f handleFrames_Cons st)
    with twoHandPinch_shapes[of e left right close s] show ?thesis
      by auto
  qed
qed

lemma bothPinching_pinchedHands:
  "bothPinching (twoHandFrame (pinchedHand x y) (pinchedHand x' y'))"
  by (simp add: bothPinching_def twoHandFrame_def isPinch_pinchedHand)

text \<open>
  The three frames of \<open>exampleSession\<close> form such a run; started after initialisation
  they create shape 0 in the first frame and only rescale it afterwards.
\<close>

lemma exampleSession_result:
  "shapes (handleFrames exampleSession runningState) = [0]"
  by (simp add: exampleSession_def handleFrames_Cons handleFrames_Nil
      handleHandResults_pinch[OF _ _ isPinch_pinchedHand isPinch_pinchedHand
        idx_pinchedHand idx_pinchedHand]
      twoHandPinch_def createRandomShape_def runningState_def initialState_def exampleEnv_def
      close_pinchedHand shapeCreationCooldown_def hypot_axis Let_def)

theorem one_shape_per_pinch_session_witness:
  "list_all (\<lambda>f. bothPinching (snd f)) exampleSession \<and>
   (\<exists>new. shapes (handleFrames exampleSession runningState) = shapes runningState @ new \<and>
      length new \<le> 1)"
proof -
  have h: "\<forall>f\<in>set exampleSession. bothPinching (snd f)"
    by (simp add: exampleSession_def bothPinching_pinchedHands)
  from one_shape_per_pinch_session[OF h, of runningState] h
  show ?thesis by (simp add: list_all_iff)
qed

section \<open>Scaling while a two-hand pinch continues\<close>


lemma twoHandPinch_zero_baseline:
  assumes "isPinching s" "originalDistance s = Some 0"
  shows "twoHandPinch e left right close s = s\<lparr>isPinching := True, binActive := False\<rparr>"
  using assms by (simp add: twoHandPinch_def Let_def split: option.splits)







text \<open>
  Claim C5.  In a frame that continues a two-hand pinch while the recorded baseline
  \<open>originalDistance\<close> is 0, the handler takes neither the creation nor the scaling branch:
  it only sets \<open>isPinching\<close> and clears the recycle indicator.  No quotient by the baseline
  is formed, and the store of shapes and \<open>shapeScale\<close> are what they were.
\<close>

theorem zero_baseline_no_scaling:
  assumes run: "isApplicationRunning s" "canvasReady s"
    and cont: "isPinching s"
    and pinch: "isPinch (Some l)" "isPinch (Some r)"
    and base: "originalDistance s = Some 0"
    and s': "s' = handleHandResults e (twoHandFrame l r) s"
  shows "s' = s\<lparr>isPinching := True, binActive := False\<rparr> \<and>
         heap s' = heap s \<and> shapeScale s' = shapeScale s \<and> shapes s' = shapes s"
proof -
  from pinch obtain left right where tips: "idx l 8 = Some left" "idx r 8 = Some right"
    by (auto simp add: isPinch_def split: option.splits)
  have "s' = twoHandPinch e left right (areIndexFingersClose (Some l) (Some r)) s"
    unfolding s' using run pinch tips by (rule handleHandResults_pinch)
  then show ?thesis
    by (simp add: twoHandPinch_zero_baseline[OF cont base])
qed

lemma zeroBaselineState_facts:
  "isApplicationRunning zeroBaselineState" "canvasReady zeroBaselineState"
  "isPinching zeroBaselineState" "originalDistance zeroBaselineState = Some 0"
  "currentShape zeroBaselineState = Some 0" "shapes zeroBaselineState = [0]"
  "scale (heap zeroBaselineState 0) = Vector3 1 1 1"
  by (simp_all add: zeroBaselineState_def
      handleHandResults_pinch[OF _ _ isPinch_pinchedHand isPinch_pinchedHand
        idx_pinchedHand idx_pinchedHand]
      twoHandPinch_def createRandomShape_def runningState_def initialState_def exampleEnv_def
      close_pinchedHand shapeCreationCooldown_def hypot_axis Let_def)

text \<open>
  A pinch that starts with both index tips at one point records the baseline 0 for the
  shape it creates; when the hands then move apart, the shape keeps its scale.
\<close>

theorem zero_baseline_no_scaling_witness:
  "originalDistance zeroBaselineState = Some 0 \<and> currentShape zeroBaselineState = Some 0 \<and>
   scale (heap (handleHandResults (exampleEnv 2100)
       (twoHandFrame (pinchedHand 0.35 0.5) (pinchedHand 0.65 0.5)) zeroBaselineState) 0)
     = Vector3 1 1 1"
proof -
  from zero_baseline_no_scaling[OF zeroBaselineState_facts(1,2,3)
      isPinch_pinchedHand[of "0.35" "0.5"] isPinch_pinchedHand[of "0.65" "0.5"]
      zeroBaselineState_facts(4) refl, where e = "exampleEnv 2100"]
  have "heap (handleHandResults (exampleEnv 2100)
       (twoHandFrame (pinchedHand 0.35 0.5) (pinchedHand 0.65 0.5)) zeroBaselineState)
       = heap zeroBaselineState"
    by blast
  then show ?thesis
    by (simp add: zeroBaselineState_facts)
qed

section \<open>The nearest shape\<close>

lemma nearestLoop_append:
  "nearestLoop h p (xs @ ys) acc = nearestLoop h p ys (nearestLoop h p xs acc)"
proof (induction xs arbitrary: acc)
  case Nil
  show ?case by simp
next
  case (Cons x xs)
  obtain md cl where acc: "acc = (md, cl)" by (cases acc)
  show ?case by (simp add: acc Cons.IH Let_def)
qed

text \<open>
  The invariant of the loop after the prefix \<open>xs\<close> of the registry has been visited.
\<close>

lemma nearestLoop_invariant:
  assumes "nearestLoop h p xs (None, None) = (md, cl)"
  shows "(cl = None \<longrightarrow> md = None \<and> (\<forall>t\<in>set xs. 1.5 \<le> distanceTo (position (h t)) p)) \<and>
         (\<forall>sh. cl = Some sh \<longrightarrow>
            md = Some (distanceTo (position (h sh)) p) \<and>
            distanceTo (position (h sh)) p < 1.5 \<and>
            (\<forall>t\<in>set xs. distanceTo (position (h sh)) p \<le> distanceTo (position (h t)) p) \<and>
            (\<exists>k<length xs. xs ! k = sh \<and>
               (\<forall>j<k. distanceTo (position (h sh)) p < distanceTo (position (h (xs ! j))) p)))"
  using assms
proof (induction xs arbitrary: md cl rule: rev_induct)
  case Nil
  then show ?case by simp
next
  case (snoc x xs)
  obtain md0 cl0 where prev: "nearestLoop h p xs (None, None) = (md0, cl0)"
    by (cases "nearestLoop h p xs (None, None)")
  note IH = snoc.IH[OF prev]
  let ?d = "\<lambda>a. distanceTo (position (h a)) p"
  from snoc.prems have step: "nearestLoop h p [x] (md0, cl0) = (md, cl)"
    by (simp add: nearestLoop_append prev)
  show ?case
  proof (cases "?d x < 1.5 \<and> (case md0 of None \<Rightarrow> True | Some m \<Rightarrow> ?d x < m)")
    case True
    with step have res: "md = Some (?d x)" "cl = Some x"
      by (simp_all add: Let_def)
    have strict: "\<forall>t\<in>set xs. ?d x < ?d t"
    proof (cases cl0)
      case None
      with IH True show ?thesis by force
    next
      case (Some c)
      with IH have "md0 = Some (?d c)" "\<forall>t\<in>set xs. ?d c \<le> ?d t" by simp_all
      with True show ?thesis by force
    qed
    then have min: "\<forall>t\<in>set xs. ?d x \<le> ?d t"
      by force
    from strict have first: "\<forall>j<length xs. ?d x < ?d (xs ! j)"
      by simp
    have "\<exists>k<length (xs @ [x]). (xs @ [x]) ! k = x \<and> (\<forall>j<k. ?d x < ?d ((xs @ [x]) ! j))"
      using first by (intro exI[of _ "length xs"]) (simp add: nth_append)
    with res True min show ?thesis by simp
  next
    case False
    with step have res: "md = md0" "cl = cl0"
      by (auto simp add: Let_def)
    show ?thesis
    proof (cases cl0)
      case None
      with IH have m0: "md0 = None" and far: "\<forall>t\<in>set xs. 1.5 \<le> ?d t" by simp_all
      from False m0 have "1.5 \<le> ?d x" by simp
      with far res None m0 show ?thesis by simp
    next
      case (Some c)
      with IH have m0: "md0 = Some (?d c)" and lt: "?d c < 1.5"
        and min: "\<forall>t\<in>set xs. ?d c \<le> ?d t"
        and ex: "\<exists>k<length xs. xs ! k = c \<and> (\<forall>j<k. ?d c < ?d (xs ! j))"
        by simp_all
      from False m0 lt have dx: "?d c \<le> ?d x" by auto
      from ex obtain k where k: "k < length xs" "xs ! k = c" "\<forall>j<k. ?d c < ?d (xs ! j)"
        by blast
      have "\<exists>k<length (xs @ [x]). (xs @ [x]) ! k = c \<and> (\<forall>j<k. ?d c < ?d ((xs @ [x]) ! j))"
        using k by (intro exI[of _ k]) (simp add: nth_append)
      with res Some m0 lt min dx show ?thesis by simp
    qed
  qed
qed

text \<open>
  Claim C6.  \<open>findNearestShape\<close> answers \<^term>\<open>None\<close> exactly when no shape of the registry
  is at a distance strictly below 1.5 from the query position (so over an empty registry,
  and when the least distance is 1.5 or more).  When it answers with a shape, that shape
  is in the registry, its distance is strictly below 1.5 and least among all shapes, and
  every shape before it in the registry is strictly farther away: among shapes at the
  least distance, the first in insertion order is returned.
\<close>

theorem findNearestShape_nearest:
  "(findNearestShape s p = None \<longleftrightarrow>
      (\<forall>t\<in>set (shapes s). 1.5 \<le> distanceTo (position (heap s t)) p)) \<and>
   (\<forall>sh. findNearestShape s p = Some sh \<longrightarrow>
      distanceTo (position (heap s sh)) p < 1.5 \<and>
      (\<forall>t\<in>set (shapes s).
         distanceTo (position (heap s sh)) p \<le> distanceTo (position (heap s t)) p) \<and>
      (\<exists>k<length (shapes s). shapes s ! k = sh \<and>
         (\<forall>j<k. distanceTo (position (heap s sh)) p
                  < distanceTo (position (heap s (shapes s ! j))) p)))"
proof -
  obtain md cl where r: "nearestLoop (heap s) p (shapes s) (None, None) = (md, cl)"
    by (cases "nearestLoop (heap s) p (shapes s) (None, None)")
  then have f: "findNearestShape s p = cl" by (simp add: findNearestShape_def)
  note inv = nearestLoop_invariant[OF r]
  show ?thesis
  proof (cases cl)
    case None
    with inv f show ?thesis by simp
  next
    case (Some c)
    with inv have lt: "distanceTo (position (heap s c)) p < 1.5"
      and ex: "\<exists>k<length (shapes s). shapes s ! k = c \<and>
         (\<forall>j<k. distanceTo (position (heap s c)) p
                  < distanceTo (position (heap s (shapes s ! j))) p)"
      and min: "\<forall>t\<in>set (shapes s).
         distanceTo (position (heap s c)) p \<le> distanceTo (position (heap s t)) p"
      by simp_all
    from ex have "c \<in> set (shapes s)" by auto
    with lt have "\<not> (\<forall>t\<in>set (shapes s). 1.5 \<le> distanceTo (position (heap s t)) p)"
      by force
    with f Some lt ex min show ?thesis by simp
  qed
qed

lemma sqrt_less_pos: "0 < t \<Longrightarrow> sqrt x < t \<longleftrightarrow> x < t\<^sup>2"
proof -
  assume t: "0 < t"
  have "sqrt x < t \<longleftrightarrow> sqrt x < sqrt (t\<^sup>2)" using t by simp
  also have "\<dots> \<longleftrightarrow> x < t\<^sup>2" by (rule real_sqrt_less_iff)
  finally show ?thesis .
qed

lemma tieState_nearest: "findNearestShape tieState (Vector3 0 0 0) = Some 1"
  by (simp add: findNearestShape_def tieState_def runningState_def initialState_def
      distanceTo_def sqrt_less_pos Let_def)

theorem findNearestShape_nearest_witness:
  "findNearestShape tieState (Vector3 0 0 0) = Some 1 \<and>
   distanceTo (position (heap tieState 1)) (Vector3 0 0 0) < 1.5 \<and>
   (\<exists>k<length (shapes tieState). shapes tieState ! k = 1 \<and>
      (\<forall>j<k. distanceTo (position (heap tieState 1)) (Vector3 0 0 0)
               < distanceTo (position (heap tieState (shapes tieState ! j))) (Vector3 0 0 0)))"
  using findNearestShape_nearest[of tieState "Vector3 0 0 0"] tieState_nearest
  by blast

section \<open>The recycle zone\<close>

text \<open>
  Claim C8.  \<open>isInRecycleBinZone\<close> projects the position with the camera to normalised
  device coordinates, maps these to pixels of the window (the vertical axis pointing
  down), mirrors the horizontal pixel coordinate at the window's width, and answers true
  exactly when the mirrored point lies between 60 and 60 + 160 pixels from the right edge
  of the window and between 60 and 60 + 160 pixels from its bottom edge, borders included.
\<close>

theorem isInRecycleBinZone_rectangle:
  "isInRecycleBinZone e pos \<longleftrightarrow>
     (let ndc = project e pos;
          screenX = (vx ndc + 1) / 2 * innerWidth e;
          screenY = (1 - vy ndc) / 2 * innerHeight e;
          mirroredX = innerWidth e - screenX
      in 60 \<le> innerWidth e - mirroredX \<and> innerWidth e - mirroredX \<le> 60 + 160 \<and>
         60 \<le> innerHeight e - screenY \<and> innerHeight e - screenY \<le> 60 + 160)"
  by (auto simp add: isInRecycleBinZone_def Let_def)


section \<open>Releasing a single-hand pinch\<close>





lemma draggingState_facts:
  "isApplicationRunning (draggingState pos)" "canvasReady (draggingState pos)"
  "selectedShape (draggingState pos) = Some 0" "shapes (draggingState pos) = [0]"
  "position (heap (draggingState pos) a) = pos"
  by (simp_all add: draggingState_def runningState_def initialState_def)





section \<open>The mouse wheel\<close>





section \<open>The two versions of the handler\<close>

lemma twoHandPinch_part000_eq:
  "twoHandPinch_part000 e left right close s = twoHandPinch e left right close s"
  by (simp add: twoHandPinch_part000_def twoHandPinch_def Let_def)

lemma noHands_part000_eq: "noHands_part000 e s = noHands e s"
  by (simp add: noHands_part000_def noHands_def Let_def)

lemma singleHand_part000_eq:
  "completeHand h \<Longrightarrow> singleHand_part000 e h s = singleHand e h s"
  by (cases h) (auto simp add: completeHand_def singleHand_part000_def singleHand_def Let_def
      split: option.splits)

lemma fold_singleHand_part000_eq:
  "list_all completeHand hands \<Longrightarrow>
   fold (singleHand_part000 e) hands s = fold (singleHand e) hands s"
  by (induction hands arbitrary: s) (simp_all add: singleHand_part000_eq)

lemma handleSingleHands_part000_eq:
  "list_all completeHand hands \<Longrightarrow>
   handleSingleHands_part000 e (Some hands) s = handleSingleHands e (Some hands) s"
  by (simp add: handleSingleHands_part000_def handleSingleHands_def noHands_part000_eq
      fold_singleHand_part000_eq)

lemma handleTwoHands_part000_eq:
  assumes "list_all completeHand hands"
  shows "handleTwoHands_part000 e (Some hands) s = handleTwoHands e (Some hands) s"
proof (cases "length hands = 2")
  case False
  then show ?thesis by (simp add: handleTwoHands_part000_def handleTwoHands_def)
next
  case True
  then obtain l r where hs: "hands = [l, r]"
    by (cases hands; cases "tl hands") auto
  from assms have c: "completeHand l" "completeHand r" by (simp_all add: hs)
  then show ?thesis
    by (auto simp add: hs handleTwoHands_part000_def handleTwoHands_def completeHand_def
        twoHandPinch_part000_eq Let_def split: option.splits)
qed

text \<open>
  Claim C3, amended.  On every frame whose result object carries \<^verbatim>\<open>multiHandLandmarks\<close>
  and in which every hand that is present has all 21 landmark entries (and on a missing
  result object), and from every starting state, the handler of \<^verbatim>\<open>src/unnamed/part_000\<close>
  and the handler of \<^verbatim>\<open>src/main.js\<close> leave the same state: the same registry, store of
  shapes, selection and pinch-session variables.
\<close>

theorem handlers_agree_on_complete_frames:
  assumes "completeFrame results"
  shows "handleHandResults_part000 e results s = handleHandResults e results s"
proof (cases results)
  case None
  then show ?thesis by (simp add: handleHandResults_part000_def handleHandResults_def)
next
  case (Some res)
  with assms obtain hands where m: "multiHandLandmarks res = Some hands"
    and c: "list_all completeHand hands"
    by (auto simp add: completeFrame_def split: option.splits)
  show ?thesis
    by (simp add: Some m handleHandResults_part000_def handleHandResults_def
        handleTwoHands_part000_eq[OF c] handleSingleHands_part000_eq[OF c]
        split: option.splits)
qed

lemma completeFrame_pinchedHands:
  "completeFrame (twoHandFrame (pinchedHand x y) (pinchedHand x' y'))"
  by (simp add: completeFrame_def twoHandFrame_def completeHand_def pinchedHand_def)

text \<open>
  Both handlers create shape 0 from two complete pinching hands after initialisation.
\<close>

theorem handlers_agree_on_complete_frames_witness:
  "completeFrame (twoHandFrame (pinchedHand 0.5 0.5) (pinchedHand 0.6 0.5)) \<and>
   shapes (handleHandResults_part000 (exampleEnv 1001)
             (twoHandFrame (pinchedHand 0.5 0.5) (pinchedHand 0.6 0.5)) runningState) = [0]"
proof -
  have "shapes (handleHandResults (exampleEnv 1001)
             (twoHandFrame (pinchedHand 0.5 0.5) (pinchedHand 0.6 0.5)) runningState) = [0]"
    by (simp add: handleHandResults_pinch[OF _ _ isPinch_pinchedHand isPinch_pinchedHand
          idx_pinchedHand idx_pinchedHand]
        twoHandPinch_def createRandomShape_def runningState_def initialState_def exampleEnv_def
        close_pinchedHand shapeCreationCooldown_def Let_def)
  with handlers_agree_on_complete_frames[
      OF completeFrame_pinchedHands[of "0.5" "0.5" "0.6" "0.5"],
      where e = "exampleEnv 1001" and s = runningState]
  show ?thesis
    by (simp add: completeFrame_pinchedHands)
qed

text \<open>
  Claim C3 as stated fails.  Two pinching hands of nine entries each (landmarks 4 and 8 are
  among them) make the handler of \<^verbatim>\<open>src/main.js\<close> create a shape, while the handler of
  \<^verbatim>\<open>src/unnamed/part_000\<close> returns before doing anything.  A result object without
  \<^verbatim>\<open>multiHandLandmarks\<close> makes the former drop the selection, while the latter keeps it.
\<close>

theorem handlers_differ_counterexample:
  "length (shortHand 0.5 0.5) < 21 \<and>
   idx (shortHand 0.5 0.5) 4 = Some (Landmark 0.5 0.5 0) \<and>
   idx (shortHand 0.5 0.5) 8 = Some (Landmark 0.5 0.5 0) \<and>
   shapes (handleHandResults (exampleEnv 1001)
             (twoHandFrame (shortHand 0.5 0.5) (shortHand 0.6 0.5)) runningState) = [0] \<and>
   shapes (handleHandResults_part000 (exampleEnv 1001)
             (twoHandFrame (shortHand 0.5 0.5) (shortHand 0.6 0.5)) runningState) = [] \<and>
   selectedShape (handleHandResults (exampleEnv 1001) (Some (Results None))
             (draggingState (Vector3 0 0 0))) = None \<and>
   selectedShape (handleHandResults_part000 (exampleEnv 1001) (Some (Results None))
             (draggingState (Vector3 0 0 0))) = Some 0"
proof -
  have a: "shapes (handleHandResults (exampleEnv 1001)
             (twoHandFrame (shortHand 0.5 0.5) (shortHand 0.6 0.5)) runningState) = [0]"
    by (simp add: handleHandResults_pinch[OF _ _ isPinch_shortHand isPinch_shortHand
          idx_shortHand idx_shortHand]
        twoHandPinch_def createRandomShape_def runningState_def initialState_def exampleEnv_def
        areIndexFingersClose_def idx_shortHand hypot_axis shapeCreationCooldown_def Let_def)
  have b: "shapes (handleHandResults_part000 (exampleEnv 1001)
             (twoHandFrame (shortHand 0.5 0.5) (shortHand 0.6 0.5)) runningState) = []"
    by (simp add: handleHandResults_part000_def handleTwoHands_part000_def twoHandFrame_def
        shortHand_def runningState_def initialState_def)
  have c: "selectedShape (handleHandResults (exampleEnv 1001) (Some (Results None))
             (draggingState (Vector3 0 0 0))) = None"
    by (simp add: handleHandResults_def handleTwoHands_def handleSingleHands_def noHands_def
        resetPinch_def draggingState_facts Let_def)
  have d: "selectedShape (handleHandResults_part000 (exampleEnv 1001) (Some (Results None))
             (draggingState (Vector3 0 0 0))) = Some 0"
    by (simp add: handleHandResults_part000_def draggingState_facts)
  show ?thesis
    using a b c d by (simp add: idx_shortHand) (simp add: shortHand_def)
qed

end
